theory Spec2Isabelle
  imports Main "HOL-Library.Word"
begin

section \<open>JavaScript strings\<close>

text \<open>
  A JavaScript string is a sequence of UTF-16 code units. \<open>js\<close> embeds an ASCII literal.
  \<open>trim\<close> is \<open>String.prototype.trim\<close>: it strips the ECMAScript WhiteSpace and
  LineTerminator code units from both ends. A string is truthy when it is not empty, so the
  source's test \<open>text.trim()\<close> is \<open>trim text \<noteq> []\<close>.
\<close>

type_synonym js_string = "16 word list"

definition js :: "string \<Rightarrow> js_string" where
  "js s = map of_char s"

definition isWhiteSpace :: "16 word \<Rightarrow> bool" where
  "isWhiteSpace c = (c \<in> set [0x0009, 0x000A, 0x000B, 0x000C, 0x000D, 0x0020, 0x00A0, 0x1680,
      0x2000, 0x2001, 0x2002, 0x2003, 0x2004, 0x2005, 0x2006, 0x2007, 0x2008, 0x2009, 0x200A,
      0x2028, 0x2029, 0x202F, 0x205F, 0x3000, 0xFEFF])"

definition trim :: "js_string \<Rightarrow> js_string" where
  "trim s = rev (dropWhile isWhiteSpace (rev (dropWhile isWhiteSpace s)))"

fun startsWith :: "js_string \<Rightarrow> js_string \<Rightarrow> bool" where
  "startsWith s [] = True"
| "startsWith [] (p # ps) = False"
| "startsWith (c # cs) (p # ps) = (c = p \<and> startsWith cs ps)"

text \<open>\<open>String.prototype.includes\<close>: the argument occurs as a contiguous substring.\<close>

fun js_includes :: "js_string \<Rightarrow> js_string \<Rightarrow> bool" where
  "js_includes [] sub = (sub = [])"
| "js_includes (c # cs) sub = (startsWith (c # cs) sub \<or> js_includes cs sub)"

section \<open>Notifications\<close>

text \<open>The argument of \<open>toast({title, description, variant})\<close>.\<close>

record toast =
  title :: string
  description :: string
  variant :: string

section \<open>useTextToSpeech (unnamed/part\_001)\<close>

text \<open>
  What the hook does to the browser: \<open>window.speechSynthesis.cancel()\<close>,
  \<open>window.speechSynthesis.speak(utterance)\<close> with the utterance's text and \<open>lang\<close>
  (rate, pitch and volume are constants of the source), and \<open>toast(...)\<close>.
\<close>

datatype tts_effect = Cancel | SpeakUtterance js_string js_string | ShowToast toast

definition notSupportedToast :: toast where
  "notSupportedToast =
     \<lparr>title = ''Not Supported'',
      description = ''Text-to-speech is not supported in this browser.'',
      variant = ''destructive''\<rparr>"

definition speechErrorToast :: toast where
  "speechErrorToast =
     \<lparr>title = ''Speech Error'',
      description = ''Unable to play audio. Please try again.'',
      variant = ''destructive''\<rparr>"

text \<open>
  \<open>speak(text, language)\<close>. The first argument says whether \<open>'speechSynthesis' in window\<close>;
  the last is the hook's state \<open>isSpeaking\<close>, returned with the effects. \<open>speak\<close> itself
  never writes \<open>isSpeaking\<close>: only the utterance's event handlers do.
\<close>

definition speak :: "bool \<Rightarrow> js_string \<Rightarrow> js_string \<Rightarrow> bool \<Rightarrow> bool \<times> tts_effect list" where
  "speak speechSynthesisInWindow text' language speaking =
     (if trim text' = [] then (speaking, [])
      else if speechSynthesisInWindow
        then (speaking, [Cancel, SpeakUtterance text' language])
        else (speaking, [ShowToast notSupportedToast]))"

definition utterance_onstart :: "bool \<Rightarrow> bool \<times> tts_effect list" where
  "utterance_onstart speaking = (True, [])"

definition utterance_onend :: "bool \<Rightarrow> bool \<times> tts_effect list" where
  "utterance_onend speaking = (False, [])"

text \<open>\<open>utterance.onerror\<close>; the first argument is \<open>event.error\<close>.\<close>

definition utterance_onerror :: "js_string \<Rightarrow> bool \<Rightarrow> bool \<times> tts_effect list" where
  "utterance_onerror error speaking =
     (if error \<noteq> js ''canceled'' \<and> error \<noteq> js ''interrupted''
      then (False, [ShowToast speechErrorToast])
      else (False, []))"

definition stopSpeaking :: "bool \<Rightarrow> bool \<Rightarrow> bool \<times> tts_effect list" where
  "stopSpeaking speechSynthesisInWindow speaking =
     (if speechSynthesisInWindow then (False, [Cancel]) else (speaking, []))"

section \<open>VoiceRecorder (components/VoiceRecorder.tsx)\<close>

text \<open>
  The component's own state \<open>isSupported\<close> and \<open>isProcessing\<close>, together with the prop
  \<open>isRecording\<close>: Index owns that state and passes its setter as \<open>onRecordingChange\<close>,
  so a call \<open>onRecordingChange(b)\<close> is the write \<open>isRecording := b\<close>.
  \<open>started\<close> counts the calls of \<open>recognition.start()\<close>, \<open>stopped\<close> those of
  \<open>recognition.stop()\<close>; \<open>hasRecognition\<close> says that \<open>recognitionRef.current\<close> is set.
\<close>

record voice_recorder =
  isSupported :: bool
  hasRecognition :: bool
  isProcessing :: bool
  isRecording :: bool
  started :: nat
  stopped :: nat

definition recognitionErrorToast :: toast where
  "recognitionErrorToast =
     \<lparr>title = ''Recognition Error'',
      description = ''There was an issue with speech recognition. Please try again.'',
      variant = ''destructive''\<rparr>"

definition startRecording :: "voice_recorder \<Rightarrow> voice_recorder" where
  "startRecording vr =
     (if hasRecognition vr \<and> \<not> isRecording vr
      then vr\<lparr>isProcessing := True, isRecording := True, started := Suc (started vr)\<rparr>
      else vr)"

definition stopRecording :: "voice_recorder \<Rightarrow> voice_recorder" where
  "stopRecording vr =
     (if hasRecognition vr \<and> isRecording vr then vr\<lparr>stopped := Suc (stopped vr)\<rparr> else vr)"

text \<open>\<open>recognition.onerror\<close>; the first argument is \<open>event.error\<close>, which is only logged.\<close>

definition recognition_onerror :: "js_string \<Rightarrow> voice_recorder \<Rightarrow> voice_recorder \<times> toast list" where
  "recognition_onerror error vr =
     (vr\<lparr>isProcessing := False, isRecording := False\<rparr>, [recognitionErrorToast])"

definition recognition_onend :: "voice_recorder \<Rightarrow> voice_recorder \<times> toast list" where
  "recognition_onend vr = (vr\<lparr>isProcessing := False, isRecording := False\<rparr>, [])"

section \<open>useTranslation\<close>

text \<open>
  A value caught by \<open>catch (error)\<close>: an \<open>Error\<close> object with its \<open>message\<close>, or
  anything else that was thrown (\<open>error instanceof Error\<close> is false).
\<close>

datatype thrown = Error js_string | NonError

text \<open>
  What one call of \<open>translateText\<close> does: how the returned promise settles (\<open>Inr\<close> the
  value it is fulfilled with, \<open>Inl\<close> the value it is rejected with), the notifications it
  shows, the writes of \<open>setIsTranslating\<close> in order, and the requests
  \<open>(fromLang, toLang, text)\<close> it sent to the translation service.
\<close>

record translate_result =
  settled :: "thrown + js_string"
  toasts :: "toast list"
  isTranslatingWrites :: "bool list"
  requests :: "(js_string \<times> js_string \<times> js_string) list"

definition translationToast :: "string \<Rightarrow> toast" where
  "translationToast errorMessage =
     \<lparr>title = ''Translation Error'', description = errorMessage, variant = ''destructive''\<rparr>"

subsection \<open>The Groq-backed hook (unnamed/part\_002)\<close>

text \<open>
  How \<open>translationService.chat.completions.create\<close> ends: it throws, or it returns a
  completion, of which the code reads \<open>choices[0]?.message?.content\<close> (\<open>None\<close> when
  that is undefined).
\<close>

datatype groq_outcome = Completion "js_string option" | Threw thrown

text \<open>The body of the \<open>try\<close> block after the request: \<open>Inl\<close> is a throw.\<close>

definition groq_try :: "groq_outcome \<Rightarrow> thrown + js_string" where
  "groq_try outcome =
     (case outcome of
        Threw error \<Rightarrow> Inl error
      | Completion None \<Rightarrow> Inl (Error (js ''No translation received''))
      | Completion (Some content) \<Rightarrow>
          (if trim content = [] then Inl (Error (js ''No translation received''))
           else Inr (trim content)))"

text \<open>The \<open>errorMessage\<close> computed in the \<open>catch\<close> block.\<close>

definition errorMessage :: "thrown \<Rightarrow> string" where
  "errorMessage error =
     (case error of
        Error message \<Rightarrow>
          (if js_includes message (js ''401'')
             then ''Authentication failed. Please check API configuration.''
           else if js_includes message (js ''429'')
             then ''Too many requests. Please try again later.''
           else ''Unable to translate text. Please try again.'')
      | NonError \<Rightarrow> ''Unable to translate text. Please try again.'')"

text \<open>
  \<open>translateText(text, fromLang, toLang)\<close>. The first argument says whether
  \<open>translationService\<close> is set; the last is how the service answers if it is asked.
\<close>

definition translateText :: "bool \<Rightarrow> js_string \<Rightarrow> js_string \<Rightarrow> js_string \<Rightarrow> groq_outcome
    \<Rightarrow> translate_result" where
  "translateText translationService text' fromLang toLang outcome =
     (if trim text' = []
        then \<lparr>settled = Inr [], toasts = [], isTranslatingWrites = [], requests = []\<rparr>
      else if \<not> translationService
        then \<lparr>settled = Inr text',
              toasts = [translationToast ''Translation service not initialized''],
              isTranslatingWrites = [], requests = []\<rparr>
      else (case groq_try outcome of
              Inr translatedText' \<Rightarrow>
                \<lparr>settled = Inr translatedText', toasts = [],
                 isTranslatingWrites = [True, False], requests = [(fromLang, toLang, text')]\<rparr>
            | Inl error \<Rightarrow>
                \<lparr>settled = Inr text', toasts = [translationToast (errorMessage error)],
                 isTranslatingWrites = [True, False], requests = [(fromLang, toLang, text')]\<rparr>))"

subsection \<open>The fetch-backed hook (hooks/useTranslation.ts)\<close>

text \<open>
  How \<open>fetch\<close> ends: it rejects, or it returns a response, of which the code reads only
  \<open>ok\<close>; the HTTP status is carried along.
\<close>

datatype fetch_outcome = Response nat bool | FetchRejected thrown

text \<open>
  The body of the \<open>try\<close> block. \<open>toUpperCase\<close> is \<open>String.prototype.toUpperCase\<close>,
  taken as a parameter.
\<close>

definition fetch_try :: "(js_string \<Rightarrow> js_string) \<Rightarrow> js_string \<Rightarrow> js_string \<Rightarrow> fetch_outcome
    \<Rightarrow> thrown + js_string" where
  "fetch_try toUpperCase text' toLang outcome =
     (case outcome of
        FetchRejected error \<Rightarrow> Inl error
      | Response status ok \<Rightarrow>
          (if ok then Inr (js ''['' @ toUpperCase toLang @ js ''] '' @ text')
           else Inl (Error (js ''Translation service unavailable''))))"

definition translateText_fetch :: "(js_string \<Rightarrow> js_string) \<Rightarrow> js_string \<Rightarrow> js_string
    \<Rightarrow> js_string \<Rightarrow> fetch_outcome \<Rightarrow> translate_result" where
  "translateText_fetch toUpperCase text' fromLang toLang outcome =
     (if trim text' = []
        then \<lparr>settled = Inr [], toasts = [], isTranslatingWrites = [], requests = []\<rparr>
      else (case fetch_try toUpperCase text' toLang outcome of
              Inr translation \<Rightarrow>
                \<lparr>settled = Inr translation, toasts = [],
                 isTranslatingWrites = [True, False], requests = [(fromLang, toLang, text')]\<rparr>
            | Inl error \<Rightarrow>
                \<lparr>settled = Inr text',
                 toasts = [translationToast
                   ''Unable to translate text. Please check your connection and try again.''],
                 isTranslatingWrites = [True, False], requests = [(fromLang, toLang, text')]\<rparr>))"

section \<open>Index: the conversation controller\<close>

text \<open>
  The repository holds two revisions of the page component: pages/Index.tsx, whose
  \<open>switchRoles\<close> button swaps the languages and which speaks a new translation by itself
  after 400 ms, and unnamed/part\_000, which has the patient and provider tabs and speaks
  only on request. Both are modelled; the definitions of the second carry the suffix
  \<open>_tab\<close>.

  React runs the component as a loop of events. An event handler reads the state of the
  latest render and writes state; after the writes the component renders again, and the
  effect \<open>useEffect\<close> runs if one of its dependencies has changed. Refs
  (\<open>lastSpokenTranslation\<close>, \<open>hasSpokenOnce\<close>, \<open>speakTimeout\<close>) are written in place and
  cause no render. A call of \<open>translateText\<close> returns a promise: the model keeps it in
  \<open>pending\<close> under a fresh number until the event that fulfils it, and keeps with it what
  the callback's closure has captured. \<open>setTimeout\<close> likewise puts its callback in
  \<open>timers\<close> under a fresh handle.
\<close>

text \<open>Calls the component makes to the hooks, in order: the trace of a run.\<close>

datatype call = TranslateText js_string js_string js_string | Speak js_string js_string

fun isSpeak :: "call \<Rightarrow> bool" where
  "isSpeak (Speak t l) = True"
| "isSpeak (TranslateText t f l) = False"

text \<open>
  A translation in flight: the arguments of \<open>translateText\<close> (\<open>reqTo\<close> is also the
  \<open>targetLanguage\<close> of the closure) and the \<open>isSpeaking\<close> of the render that started it.
\<close>

record request =
  reqText :: js_string
  reqFrom :: js_string
  reqTo :: js_string
  reqIsSpeaking :: bool

record index_state =
  sourceLanguage :: js_string
  targetLanguage :: js_string
  originalText :: js_string
  translatedText :: js_string
  isSpeaking :: bool
  speakTimeout :: "nat option"
  lastSpokenTranslation :: js_string
  pending :: "(nat \<times> request) list"
  nextRequest :: nat
  timers :: "(nat \<times> js_string \<times> js_string) list"
  nextTimer :: nat
  calls :: "call list"

record tab_state = index_state +
  activeTab :: js_string
  hasSpokenOnce :: bool

definition speakCount :: "'a index_state_scheme \<Rightarrow> nat" where
  "speakCount st = length (filter isSpeak (calls st))"

definition without :: "nat \<Rightarrow> (nat \<times> 'a) list \<Rightarrow> (nat \<times> 'a) list" where
  "without k kvs = filter (\<lambda>kv. fst kv \<noteq> k) kvs"

text \<open>The call \<open>translateText(originalText, sourceLanguage, targetLanguage)\<close> of the effect.\<close>

definition callTranslateText :: "'a index_state_scheme \<Rightarrow> 'a index_state_scheme" where
  "callTranslateText st =
     st\<lparr>pending := pending st @
            [(nextRequest st,
              \<lparr>reqText = originalText st, reqFrom = sourceLanguage st,
               reqTo = targetLanguage st, reqIsSpeaking = isSpeaking st\<rparr>)],
        nextRequest := Suc (nextRequest st),
        calls := calls st @
            [TranslateText (originalText st) (sourceLanguage st) (targetLanguage st)]\<rparr>"

subsection \<open>pages/Index.tsx\<close>

text \<open>The effect "auto-translate when original text changes".\<close>

definition useEffect :: "index_state \<Rightarrow> index_state" where
  "useEffect st =
     (if trim (originalText st) \<noteq> [] then callTranslateText st
      else st\<lparr>translatedText := []\<rparr>)"

text \<open>The callback given to \<open>then\<close>, run when the promise is fulfilled with \<open>translation\<close>.\<close>

definition onTranslation :: "request \<Rightarrow> js_string \<Rightarrow> index_state \<Rightarrow> index_state" where
  "onTranslation req translation st =
     (let st1 = st\<lparr>translatedText := translation\<rparr> in
      if trim translation \<noteq> [] \<and> \<not> reqIsSpeaking req
         \<and> translation \<noteq> lastSpokenTranslation st1
      then
        (let st2 = (case speakTimeout st1 of
                      Some h \<Rightarrow> st1\<lparr>timers := without h (timers st1)\<rparr>
                    | None \<Rightarrow> st1)
         in st2\<lparr>speakTimeout := Some (nextTimer st2),
                timers := timers st2 @ [(nextTimer st2, translation, reqTo req)],
                nextTimer := Suc (nextTimer st2)\<rparr>)
      else st1)"

text \<open>The callback given to \<open>setTimeout\<close>, with the \<open>translation\<close> and language it captured.\<close>

definition onTimeout :: "js_string \<Rightarrow> js_string \<Rightarrow> index_state \<Rightarrow> index_state" where
  "onTimeout translation language st =
     st\<lparr>calls := calls st @ [Speak translation language],
        lastSpokenTranslation := translation\<rparr>"

definition switchRoles :: "index_state \<Rightarrow> index_state" where
  "switchRoles st =
     (let tempLang = sourceLanguage st in
      st\<lparr>sourceLanguage := targetLanguage st, targetLanguage := tempLang,
         originalText := [], translatedText := []\<rparr>)"

definition handleSpeak :: "index_state \<Rightarrow> index_state" where
  "handleSpeak st =
     (if \<not> isSpeaking st \<and> trim (translatedText st) \<noteq> []
         \<and> translatedText st \<noteq> lastSpokenTranslation st
      then st\<lparr>calls := calls st @ [Speak (translatedText st) (targetLanguage st)],
              lastSpokenTranslation := translatedText st\<rparr>
      else st)"

definition clearTranscripts :: "index_state \<Rightarrow> index_state" where
  "clearTranscripts st =
     st\<lparr>originalText := [], translatedText := [], lastSpokenTranslation := []\<rparr>"

text \<open>
  The dependencies of the effect that are state: \<open>translateText\<close> and \<open>speak\<close> are
  memoised callbacks.
\<close>

definition deps :: "index_state \<Rightarrow> js_string \<times> js_string \<times> js_string \<times> bool" where
  "deps st = (originalText st, sourceLanguage st, targetLanguage st, isSpeaking st)"

definition render :: "index_state \<Rightarrow> index_state \<Rightarrow> index_state" where
  "render before after = (if deps after = deps before then after else useEffect after)"

text \<open>
  The events of the page: what the user and the collaborators can do to it. Each revision
  ignores the controls it does not have.
\<close>

datatype event =
    Transcript js_string
  | SelectSourceLanguage js_string
  | SelectTargetLanguage js_string
  | ClickSwitchRoles
  | ClickTab js_string
  | ClickSpeak
  | ClickClearOriginal
  | ClickClearTranslated
  | ClickClearAll
  | TranslationFulfilled nat js_string
  | TimerFired nat
  | UtteranceStart
  | UtteranceEnd
  | UtteranceError js_string

fun handle :: "event \<Rightarrow> index_state \<Rightarrow> index_state" where
  "handle (Transcript t) st = st\<lparr>originalText := t\<rparr>"
| "handle (SelectSourceLanguage l) st = st\<lparr>sourceLanguage := l\<rparr>"
| "handle (SelectTargetLanguage l) st = st\<lparr>targetLanguage := l\<rparr>"
| "handle ClickSwitchRoles st = switchRoles st"
| "handle (ClickTab tab) st = st"
| "handle ClickSpeak st = handleSpeak st"
| "handle ClickClearOriginal st = st\<lparr>originalText := []\<rparr>"
| "handle ClickClearTranslated st = st\<lparr>translatedText := []\<rparr>"
| "handle ClickClearAll st = st"
| "handle (TranslationFulfilled i translation) st =
     (case map_of (pending st) i of
        None \<Rightarrow> st
      | Some req \<Rightarrow> onTranslation req translation (st\<lparr>pending := without i (pending st)\<rparr>))"
| "handle (TimerFired h) st =
     (case map_of (timers st) h of
        None \<Rightarrow> st
      | Some (translation, language) \<Rightarrow>
          onTimeout translation language (st\<lparr>timers := without h (timers st)\<rparr>))"
| "handle UtteranceStart st = st\<lparr>isSpeaking := fst (utterance_onstart (isSpeaking st))\<rparr>"
| "handle UtteranceEnd st = st\<lparr>isSpeaking := fst (utterance_onend (isSpeaking st))\<rparr>"
| "handle (UtteranceError e) st = st\<lparr>isSpeaking := fst (utterance_onerror e (isSpeaking st))\<rparr>"

definition step :: "event \<Rightarrow> index_state \<Rightarrow> index_state" where
  "step ev st = render st (handle ev st)"

fun run :: "event list \<Rightarrow> index_state \<Rightarrow> index_state" where
  "run [] st = st"
| "run (ev # evs) st = run evs (step ev st)"

subsection \<open>unnamed/part\_000: the revision with tabs\<close>

definition useEffect_tab :: "tab_state \<Rightarrow> tab_state" where
  "useEffect_tab st =
     (if trim (originalText st) \<noteq> [] then callTranslateText st
      else st\<lparr>translatedText := [], hasSpokenOnce := False\<rparr>)"

definition onTranslation_tab :: "js_string \<Rightarrow> tab_state \<Rightarrow> tab_state" where
  "onTranslation_tab translation st = st\<lparr>translatedText := translation, hasSpokenOnce := False\<rparr>"

definition switchToTab :: "js_string \<Rightarrow> tab_state \<Rightarrow> tab_state" where
  "switchToTab tab st =
     (let st1 = st\<lparr>activeTab := tab\<rparr>;
          st2 = (if tab = js ''patient'' then st1
                 else (let tempLang = sourceLanguage st in
                       st1\<lparr>sourceLanguage := targetLanguage st, targetLanguage := tempLang\<rparr>))
      in st2\<lparr>originalText := [], translatedText := [], hasSpokenOnce := False\<rparr>)"

definition handleSpeak_tab :: "tab_state \<Rightarrow> tab_state" where
  "handleSpeak_tab st =
     (if \<not> isSpeaking st \<and> trim (translatedText st) \<noteq> [] \<and> \<not> hasSpokenOnce st
      then st\<lparr>calls := calls st @ [Speak (translatedText st) (targetLanguage st)],
              hasSpokenOnce := True\<rparr>
      else st)"

definition clearTranscripts_tab :: "tab_state \<Rightarrow> tab_state" where
  "clearTranscripts_tab st = st\<lparr>originalText := [], translatedText := [], hasSpokenOnce := False\<rparr>"

definition deps_tab :: "tab_state \<Rightarrow> js_string \<times> js_string \<times> js_string" where
  "deps_tab st = (originalText st, sourceLanguage st, targetLanguage st)"

definition render_tab :: "tab_state \<Rightarrow> tab_state \<Rightarrow> tab_state" where
  "render_tab before after =
     (if deps_tab after = deps_tab before then after else useEffect_tab after)"

fun handle_tab :: "event \<Rightarrow> tab_state \<Rightarrow> tab_state" where
  "handle_tab (Transcript t) st = st\<lparr>originalText := t\<rparr>"
| "handle_tab (SelectSourceLanguage l) st = st\<lparr>sourceLanguage := l\<rparr>"
| "handle_tab (SelectTargetLanguage l) st = st\<lparr>targetLanguage := l\<rparr>"
| "handle_tab ClickSwitchRoles st = st"
| "handle_tab (ClickTab tab) st = switchToTab tab st"
| "handle_tab ClickSpeak st = handleSpeak_tab st"
| "handle_tab ClickClearOriginal st = st\<lparr>originalText := []\<rparr>"
| "handle_tab ClickClearTranslated st = st\<lparr>translatedText := []\<rparr>"
| "handle_tab ClickClearAll st = clearTranscripts_tab st"
| "handle_tab (TranslationFulfilled i translation) st =
     (case map_of (pending st) i of
        None \<Rightarrow> st
      | Some req \<Rightarrow> onTranslation_tab translation (st\<lparr>pending := without i (pending st)\<rparr>))"
| "handle_tab (TimerFired h) st = st"
| "handle_tab UtteranceStart st = st\<lparr>isSpeaking := fst (utterance_onstart (isSpeaking st))\<rparr>"
| "handle_tab UtteranceEnd st = st\<lparr>isSpeaking := fst (utterance_onend (isSpeaking st))\<rparr>"
| "handle_tab (UtteranceError e) st =
     st\<lparr>isSpeaking := fst (utterance_onerror e (isSpeaking st))\<rparr>"

definition step_tab :: "event \<Rightarrow> tab_state \<Rightarrow> tab_state" where
  "step_tab ev st = render_tab st (handle_tab ev st)"

fun run_tab :: "event list \<Rightarrow> tab_state \<Rightarrow> tab_state" where
  "run_tab [] st = st"
| "run_tab (ev # evs) st = run_tab evs (step_tab ev st)"

text \<open>
  The events that neither write \<open>translatedText\<close> through a handler nor reset the record of
  what was spoken: a request to speak, and the utterance's own events.
\<close>

fun speechEvent :: "event \<Rightarrow> bool" where
  "speechEvent ClickSpeak = True"
| "speechEvent UtteranceStart = True"
| "speechEvent UtteranceEnd = True"
| "speechEvent (UtteranceError e) = True"
| "speechEvent ev = False"

text \<open>
  In pages/Index.tsx a request to speak is refused when the translation is blank or is the
  one spoken last.
\<close>

definition gateClosed :: "index_state \<Rightarrow> bool" where
  "gateClosed st =
     (trim (translatedText st) = [] \<or> translatedText st = lastSpokenTranslation st)"

subsection \<open>The page as first rendered\<close>

definition initial :: index_state where
  "initial =
     \<lparr>sourceLanguage = js ''en'', targetLanguage = js ''es'', originalText = [],
      translatedText = [], isSpeaking = False, speakTimeout = None,
      lastSpokenTranslation = [], pending = [], nextRequest = 0, timers = [], nextTimer = 1,
      calls = []\<rparr>"

definition initial_tab :: tab_state where
  "initial_tab =
     \<lparr>sourceLanguage = js ''en'', targetLanguage = js ''es'', originalText = [],
      translatedText = [], isSpeaking = False, speakTimeout = None,
      lastSpokenTranslation = [], pending = [], nextRequest = 0, timers = [], nextTimer = 1,
      calls = [], activeTab = js ''patient'', hasSpokenOnce = False\<rparr>"

section \<open>Properties\<close>

lemmas js_eval = js_def trim_def isWhiteSpace_def

lemmas hook_eval = utterance_onstart_def utterance_onend_def utterance_onerror_def
  callTranslateText_def without_def speakCount_def

lemmas index_eval = step_def render_def deps_def useEffect_def
  onTranslation_def onTimeout_def switchRoles_def handleSpeak_def clearTranscripts_def
  initial_def

lemmas tab_eval = step_tab_def render_tab_def deps_tab_def useEffect_tab_def
  onTranslation_tab_def switchToTab_def handleSpeak_tab_def
  clearTranscripts_tab_def initial_tab_def

lemma trim_Nil: "trim [] = []"
  by (simp add: trim_def)

subsection \<open>Speech output\<close>

text \<open>
  C10: for every empty or whitespace-only text, \<open>speak(text, language)\<close> does nothing: it
  calls no speech synthesis, shows no notification and leaves \<open>isSpeaking\<close> as it was,
  whether or not the browser has speech synthesis.
\<close>

theorem speak_blank_is_noop:
  "trim text' = [] \<Longrightarrow> speak speechSynthesisInWindow text' language speaking = (speaking, [])"
  by (simp add: speak_def)

theorem speak_blank_is_noop_witness:
  "trim (js ''  '') = [] \<and> speak True (js ''  '') (js ''es'') True = (True, [])"
proof -
  have blank: "trim (js ''  '') = []"
    by (simp add: js_eval)
  from blank speak_blank_is_noop [OF blank] show ?thesis
    by (rule conjI)
qed

text \<open>
  C8: on every error event of an utterance \<open>isSpeaking\<close> becomes false; for the causes
  \<open>canceled\<close> and \<open>interrupted\<close> nothing is shown, and for every other cause exactly one
  notification, the same generic one.
\<close>

theorem utterance_onerror_notifies:
  "fst (utterance_onerror error speaking) = False
   \<and> snd (utterance_onerror (js ''canceled'') speaking) = []
   \<and> snd (utterance_onerror (js ''interrupted'') speaking) = []
   \<and> (error \<noteq> js ''canceled'' \<longrightarrow> error \<noteq> js ''interrupted'' \<longrightarrow>
        snd (utterance_onerror error speaking) = [ShowToast speechErrorToast])"
  by (simp add: utterance_onerror_def)

theorem utterance_onerror_notifies_witness:
  "js ''audio-busy'' \<noteq> js ''canceled'' \<and> js ''audio-busy'' \<noteq> js ''interrupted''
   \<and> fst (utterance_onerror (js ''audio-busy'') True) = False
   \<and> snd (utterance_onerror (js ''audio-busy'') True) = [ShowToast speechErrorToast]"
proof -
  have a: "js ''audio-busy'' \<noteq> js ''canceled''" and b: "js ''audio-busy'' \<noteq> js ''interrupted''"
    by (simp_all add: js_def)
  from utterance_onerror_notifies [of "js ''audio-busy''" True] a b show ?thesis
    by blast
qed

subsection \<open>Speech capture\<close>

text \<open>
  C7: when the recognition reports an error, the handler writes \<open>isRecording := false\<close> and
  \<open>isProcessing := false\<close> and shows one notification, whatever the state was; in
  particular after \<open>startRecording\<close> has opened a session.
\<close>

theorem recognition_onerror_stops_recording:
  "isRecording (fst (recognition_onerror error vr)) = False
   \<and> isProcessing (fst (recognition_onerror error vr)) = False
   \<and> snd (recognition_onerror error vr) = [recognitionErrorToast]
   \<and> isRecording (fst (recognition_onerror error (startRecording vr))) = False
   \<and> isProcessing (fst (recognition_onerror error (startRecording vr))) = False"
  by (simp add: recognition_onerror_def)

theorem recognition_onerror_stops_recording_witness:
  "isRecording (startRecording \<lparr>isSupported = True, hasRecognition = True, isProcessing = False,
       isRecording = False, started = 0, stopped = 0\<rparr>) = True
   \<and> isRecording (fst (recognition_onerror (js ''network'')
        (startRecording \<lparr>isSupported = True, hasRecognition = True, isProcessing = False,
           isRecording = False, started = 0, stopped = 0\<rparr>))) = False"
proof -
  have "isRecording (startRecording \<lparr>isSupported = True, hasRecognition = True,
      isProcessing = False, isRecording = False, started = 0, stopped = 0\<rparr>) = True"
    by (simp add: startRecording_def)
  with recognition_onerror_stops_recording [of "js ''network''"
      "\<lparr>isSupported = True, hasRecognition = True, isProcessing = False,
           isRecording = False, started = 0, stopped = 0\<rparr>"]
  show ?thesis by blast
qed

subsection \<open>Translation\<close>




lemma useEffect_blank:
  "trim (originalText st) = [] \<Longrightarrow> useEffect st = st\<lparr>translatedText := []\<rparr>"
  by (simp add: useEffect_def)

lemma useEffect_tab_blank:
  "trim (originalText ts) = [] \<Longrightarrow>
     useEffect_tab ts = ts\<lparr>translatedText := [], hasSpokenOnce := False\<rparr>"
  by (simp add: useEffect_tab_def)

text \<open>
  C5: when \<open>originalText\<close> is empty or only whitespace, the effect writes the empty string
  to \<open>translatedText\<close> and calls no translation: the trace of calls and the promises in
  flight stay as they were. The same holds for the whole event in which the recogniser
  delivers such a transcript. \<open>translateText\<close> itself, given such a text, sends nothing to
  the service and returns the empty string.
\<close>

theorem blank_original_clears_translation:
  "(trim (originalText st) = [] \<longrightarrow>
      translatedText (useEffect st) = [] \<and> calls (useEffect st) = calls st
      \<and> pending (useEffect st) = pending st)
   \<and> (trim (originalText ts) = [] \<longrightarrow>
      translatedText (useEffect_tab ts) = [] \<and> calls (useEffect_tab ts) = calls ts
      \<and> pending (useEffect_tab ts) = pending ts)
   \<and> (trim t = [] \<longrightarrow> t \<noteq> originalText st \<longrightarrow>
      translatedText (step (Transcript t) st) = [] \<and> calls (step (Transcript t) st) = calls st
      \<and> pending (step (Transcript t) st) = pending st)
   \<and> (trim t = [] \<longrightarrow> t \<noteq> originalText ts \<longrightarrow>
      translatedText (step_tab (Transcript t) ts) = []
      \<and> calls (step_tab (Transcript t) ts) = calls ts
      \<and> pending (step_tab (Transcript t) ts) = pending ts)
   \<and> (trim t = [] \<longrightarrow>
      settled (translateText translationService t fromLang toLang outcome) = Inr []
      \<and> requests (translateText translationService t fromLang toLang outcome) = []
      \<and> settled (translateText_fetch toUpperCase t fromLang toLang outcome') = Inr []
      \<and> requests (translateText_fetch toUpperCase t fromLang toLang outcome') = [])"
  by (simp add: useEffect_blank useEffect_tab_blank step_def render_def deps_def
      step_tab_def render_tab_def deps_tab_def translateText_def translateText_fetch_def)

theorem blank_original_clears_translation_witness:
  "trim (js ''  '') = []
   \<and> translatedText (useEffect (initial\<lparr>originalText := js ''  '',
        translatedText := js ''Hola''\<rparr>)) = []
   \<and> calls (useEffect (initial\<lparr>originalText := js ''  '', translatedText := js ''Hola''\<rparr>)) = []
   \<and> translatedText (step_tab (Transcript (js ''  ''))
        (initial_tab\<lparr>originalText := js ''Hi'', translatedText := js ''Hola''\<rparr>)) = []
   \<and> calls (step_tab (Transcript (js ''  ''))
        (initial_tab\<lparr>originalText := js ''Hi'', translatedText := js ''Hola''\<rparr>)) = []
   \<and> requests (translateText True (js ''  '') (js ''en'') (js ''es'')
        (Completion (Some (js ''Hola'')))) = []"
proof -
  have blank: "trim (js ''  '') = []"
    by (simp add: js_eval)
  have differs: "js ''  '' \<noteq> js ''Hi''"
    by (simp add: js_def)
  from blank_original_clears_translation
    [of "initial\<lparr>originalText := js ''  '', translatedText := js ''Hola''\<rparr>"
        "initial_tab\<lparr>originalText := js ''Hi'', translatedText := js ''Hola''\<rparr>"
        "js ''  ''" True "js ''en''" "js ''es''" "Completion (Some (js ''Hola''))"]
    blank differs
  show ?thesis by (simp add: initial_def initial_tab_def)
qed

subsection \<open>Switching roles and clearing\<close>

text \<open>
  C6: \<open>switchRoles\<close> exchanges \<open>sourceLanguage\<close> and \<open>targetLanguage\<close>, so two
  invocations restore the pair, both for the handler alone and for the two clicks with the
  renders and effects between them.
\<close>

theorem switchRoles_involution:
  "sourceLanguage (switchRoles (switchRoles st)) = sourceLanguage st
   \<and> targetLanguage (switchRoles (switchRoles st)) = targetLanguage st
   \<and> sourceLanguage (switchRoles st) = targetLanguage st
   \<and> targetLanguage (switchRoles st) = sourceLanguage st
   \<and> sourceLanguage (step ClickSwitchRoles (step ClickSwitchRoles st)) = sourceLanguage st
   \<and> targetLanguage (step ClickSwitchRoles (step ClickSwitchRoles st)) = targetLanguage st"
  by (simp add: switchRoles_def step_def render_def useEffect_def callTranslateText_def Let_def)

theorem switchRoles_involution_witness:
  "sourceLanguage (switchRoles initial) = js ''es''
   \<and> targetLanguage (switchRoles initial) = js ''en''
   \<and> sourceLanguage (switchRoles (switchRoles initial)) = js ''en''
   \<and> targetLanguage (switchRoles (switchRoles initial)) = js ''es''"
  using switchRoles_involution [of initial] by (simp add: initial_def)

text \<open>
  C9: \<open>clearTranscripts\<close> empties \<open>originalText\<close> and \<open>translatedText\<close> and resets the
  record of what was spoken (\<open>lastSpokenTranslation\<close> in pages/Index.tsx,
  \<open>hasSpokenOnce\<close> in the revision with tabs); the languages and the active tab stay as
  they were, also after the render and effect that follow.
\<close>

theorem clearTranscripts_frame:
  "originalText (clearTranscripts st) = [] \<and> translatedText (clearTranscripts st) = []
   \<and> lastSpokenTranslation (clearTranscripts st) = []
   \<and> sourceLanguage (clearTranscripts st) = sourceLanguage st
   \<and> targetLanguage (clearTranscripts st) = targetLanguage st
   \<and> originalText (render st (clearTranscripts st)) = []
   \<and> translatedText (render st (clearTranscripts st)) = []
   \<and> lastSpokenTranslation (render st (clearTranscripts st)) = []
   \<and> sourceLanguage (render st (clearTranscripts st)) = sourceLanguage st
   \<and> targetLanguage (render st (clearTranscripts st)) = targetLanguage st
   \<and> originalText (clearTranscripts_tab ts) = [] \<and> translatedText (clearTranscripts_tab ts) = []
   \<and> hasSpokenOnce (clearTranscripts_tab ts) = False
   \<and> activeTab (clearTranscripts_tab ts) = activeTab ts
   \<and> sourceLanguage (clearTranscripts_tab ts) = sourceLanguage ts
   \<and> targetLanguage (clearTranscripts_tab ts) = targetLanguage ts
   \<and> originalText (step_tab ClickClearAll ts) = []
   \<and> translatedText (step_tab ClickClearAll ts) = []
   \<and> hasSpokenOnce (step_tab ClickClearAll ts) = False
   \<and> activeTab (step_tab ClickClearAll ts) = activeTab ts
   \<and> sourceLanguage (step_tab ClickClearAll ts) = sourceLanguage ts
   \<and> targetLanguage (step_tab ClickClearAll ts) = targetLanguage ts"
  by (simp add: clearTranscripts_def clearTranscripts_tab_def render_def useEffect_def
      step_tab_def render_tab_def useEffect_tab_def trim_Nil)

theorem clearTranscripts_frame_witness:
  "translatedText (clearTranscripts (initial\<lparr>originalText := js ''Hi'',
      translatedText := js ''Hola'', lastSpokenTranslation := js ''Hola''\<rparr>)) = []
   \<and> lastSpokenTranslation (clearTranscripts (initial\<lparr>originalText := js ''Hi'',
      translatedText := js ''Hola'', lastSpokenTranslation := js ''Hola''\<rparr>)) = []
   \<and> targetLanguage (clearTranscripts (initial\<lparr>originalText := js ''Hi'',
      translatedText := js ''Hola'', lastSpokenTranslation := js ''Hola''\<rparr>)) = js ''es''
   \<and> originalText (step_tab ClickClearAll (initial_tab\<lparr>originalText := js ''Hi'',
      translatedText := js ''Hola'', hasSpokenOnce := True\<rparr>)) = []
   \<and> hasSpokenOnce (step_tab ClickClearAll (initial_tab\<lparr>originalText := js ''Hi'',
      translatedText := js ''Hola'', hasSpokenOnce := True\<rparr>)) = False
   \<and> activeTab (step_tab ClickClearAll (initial_tab\<lparr>originalText := js ''Hi'',
      translatedText := js ''Hola'', hasSpokenOnce := True\<rparr>)) = js ''patient''"
  using clearTranscripts_frame
    [of "initial\<lparr>originalText := js ''Hi'', translatedText := js ''Hola'',
           lastSpokenTranslation := js ''Hola''\<rparr>"
        "initial_tab\<lparr>originalText := js ''Hi'', translatedText := js ''Hola'',
           hasSpokenOnce := True\<rparr>"]
  by (simp add: initial_def initial_tab_def)

lemma switchRoles_keeps_lastSpoken:
  "lastSpokenTranslation (switchRoles st) = lastSpokenTranslation st
   \<and> lastSpokenTranslation (step ClickSwitchRoles st) = lastSpokenTranslation st"
  by (simp add: switchRoles_def step_def render_def useEffect_def callTranslateText_def Let_def)

lemma switchToTab_clears:
  "originalText (switchToTab tab ts) = [] \<and> translatedText (switchToTab tab ts) = []
   \<and> hasSpokenOnce (switchToTab tab ts) = False"
  by (simp add: switchToTab_def Let_def)

lemma switchRoles_clears:
  "originalText (switchRoles st) = [] \<and> translatedText (switchRoles st) = []"
  by (simp add: switchRoles_def Let_def)

text \<open>
  C4 fails on \<open>switchRoles\<close> of pages/Index.tsx: it empties both transcripts but leaves
  \<open>lastSpokenTranslation\<close> as it was, where \<open>clearTranscripts\<close> of the same file and
  \<open>switchToTab\<close> of the other revision reset the record. The patient's "No" is translated
  to "No" and spoken by the timer (the utterance's start and end each run the effect again,
  and those translations arrive too); the roles are switched; the provider's "No" is
  translated to "No", and neither a timer nor a request to speak plays it, because it equals
  the translation spoken before the switch. On the revision with tabs the same conversation
  speaks both.
\<close>

theorem switchRoles_leaves_gate_closed:
  "lastSpokenTranslation
     (run [Transcript (js ''No''), TranslationFulfilled 0 (js ''No''), TimerFired 1,
           UtteranceStart, TranslationFulfilled 1 (js ''No''),
           UtteranceEnd, TranslationFulfilled 2 (js ''No''),
           ClickSwitchRoles] initial) = js ''No''
   \<and> translatedText
     (run [Transcript (js ''No''), TranslationFulfilled 0 (js ''No''), TimerFired 1,
           UtteranceStart, TranslationFulfilled 1 (js ''No''),
           UtteranceEnd, TranslationFulfilled 2 (js ''No''),
           ClickSwitchRoles, Transcript (js ''No''), TranslationFulfilled 3 (js ''No''),
           ClickSpeak] initial) = js ''No''
   \<and> filter isSpeak (calls
     (run [Transcript (js ''No''), TranslationFulfilled 0 (js ''No''), TimerFired 1,
           UtteranceStart, TranslationFulfilled 1 (js ''No''),
           UtteranceEnd, TranslationFulfilled 2 (js ''No''),
           ClickSwitchRoles, Transcript (js ''No''), TranslationFulfilled 3 (js ''No''),
           ClickSpeak] initial)) = [Speak (js ''No'') (js ''es'')]
   \<and> timers
     (run [Transcript (js ''No''), TranslationFulfilled 0 (js ''No''), TimerFired 1,
           UtteranceStart, TranslationFulfilled 1 (js ''No''),
           UtteranceEnd, TranslationFulfilled 2 (js ''No''),
           ClickSwitchRoles, Transcript (js ''No''), TranslationFulfilled 3 (js ''No''),
           ClickSpeak] initial) = []
   \<and> pending
     (run [Transcript (js ''No''), TranslationFulfilled 0 (js ''No''), TimerFired 1,
           UtteranceStart, TranslationFulfilled 1 (js ''No''),
           UtteranceEnd, TranslationFulfilled 2 (js ''No''),
           ClickSwitchRoles, Transcript (js ''No''), TranslationFulfilled 3 (js ''No''),
           ClickSpeak] initial) = []
   \<and> filter isSpeak (calls
     (run_tab [Transcript (js ''No''), TranslationFulfilled 0 (js ''No''), ClickSpeak,
           UtteranceStart, UtteranceEnd,
           ClickTab (js ''provider''), Transcript (js ''No''), TranslationFulfilled 1 (js ''No''),
           ClickSpeak] initial_tab)) = [Speak (js ''No'') (js ''es''), Speak (js ''No'') (js ''en'')]"
  by (simp add: index_eval tab_eval hook_eval js_eval Let_def)

subsection \<open>Speaking a translation once\<close>

text \<open>
  Once the gate is closed, requests to speak and the utterance's events keep it closed and
  add no call of \<open>speak\<close>; an event that does call \<open>speak\<close> closes it. Induction over
  the events, with the state generalised, gives the bound.
\<close>

lemma useEffect_gate_closed:
  "gateClosed st \<Longrightarrow> gateClosed (useEffect st) \<and> speakCount (useEffect st) = speakCount st"
  by (simp add: gateClosed_def useEffect_def callTranslateText_def speakCount_def trim_Nil)

lemma render_gate_closed:
  "gateClosed st' \<Longrightarrow> gateClosed (render st st') \<and> speakCount (render st st') = speakCount st'"
  by (simp add: render_def useEffect_gate_closed)

lemma handleSpeak_gate_closed:
  "gateClosed st \<Longrightarrow> handleSpeak st = st"
  by (auto simp add: gateClosed_def handleSpeak_def)

lemma handle_gate_closed:
  "speechEvent ev \<Longrightarrow> gateClosed st \<Longrightarrow>
     gateClosed (handle ev st) \<and> speakCount (handle ev st) = speakCount st"
  by (cases ev) (simp_all add: handleSpeak_gate_closed, simp_all add: gateClosed_def speakCount_def)

lemma step_gate_closed:
  "speechEvent ev \<Longrightarrow> gateClosed st \<Longrightarrow>
     gateClosed (step ev st) \<and> speakCount (step ev st) = speakCount st"
  by (simp add: step_def render_gate_closed handle_gate_closed)


lemma run_gate_closed:
  "list_all speechEvent evs \<Longrightarrow> gateClosed st \<Longrightarrow> speakCount (run evs st) = speakCount st"
proof (induction evs arbitrary: st)
  case Nil
  then show ?case by simp
next
  case (Cons ev evs)
  from Cons.prems have ev: "speechEvent ev" and evs: "list_all speechEvent evs"
    by simp_all
  from step_gate_closed [OF ev Cons.prems(2)]
  have "gateClosed (step ev st)" and same: "speakCount (step ev st) = speakCount st"
    by simp_all
  with Cons.IH [OF evs] show ?case by simp
qed

lemma handleSpeak_speaks_once:
  "handleSpeak st = st
   \<or> (gateClosed (handleSpeak st) \<and> speakCount (handleSpeak st) = Suc (speakCount st))"
  by (simp add: handleSpeak_def gateClosed_def speakCount_def)

lemma handle_speaks_once:
  "speechEvent ev \<Longrightarrow>
     speakCount (handle ev st) = speakCount st
     \<or> (gateClosed (handle ev st) \<and> speakCount (handle ev st) = Suc (speakCount st))"
proof (cases ev)
  case ClickSpeak
  with handleSpeak_speaks_once [of st] show ?thesis by auto
qed (simp_all add: speakCount_def)

lemma step_speaks_once:
  "speechEvent ev \<Longrightarrow>
     speakCount (step ev st) = speakCount st
     \<or> (gateClosed (step ev st) \<and> speakCount (step ev st) = Suc (speakCount st))"
proof -
  assume ev: "speechEvent ev"
  have unchanged: "speakCount (render st (handle ev st)) = speakCount (handle ev st)"
    by (simp add: render_def useEffect_def callTranslateText_def speakCount_def)
  from handle_speaks_once [OF ev, of st] show ?thesis
  proof
    assume "speakCount (handle ev st) = speakCount st"
    with unchanged show ?thesis by (simp add: step_def)
  next
    assume "gateClosed (handle ev st) \<and> speakCount (handle ev st) = Suc (speakCount st)"
    with render_gate_closed [of "handle ev st" st] show ?thesis by (simp add: step_def)
  qed
qed

lemma run_at_most_once:
  "list_all speechEvent evs \<Longrightarrow> speakCount (run evs st) \<le> Suc (speakCount st)"
proof (induction evs arbitrary: st)
  case Nil
  then show ?case by simp
next
  case (Cons ev evs)
  from Cons.prems have ev: "speechEvent ev" and evs: "list_all speechEvent evs"
    by simp_all
  from step_speaks_once [OF ev, of st] show ?case
  proof
    assume "speakCount (step ev st) = speakCount st"
    with Cons.IH [OF evs, of "step ev st"] show ?thesis by simp
  next
    assume spoken: "gateClosed (step ev st) \<and> speakCount (step ev st) = Suc (speakCount st)"
    with run_gate_closed [OF evs, of "step ev st"]
    show ?thesis by simp
  qed
qed

lemma handle_tab_gate_closed:
  "speechEvent ev \<Longrightarrow> hasSpokenOnce st \<Longrightarrow>
     hasSpokenOnce (handle_tab ev st) \<and> calls (handle_tab ev st) = calls st
     \<and> deps_tab (handle_tab ev st) = deps_tab st"
  by (cases ev) (simp_all add: handleSpeak_tab_def deps_tab_def)

lemma step_tab_gate_closed:
  "speechEvent ev \<Longrightarrow> hasSpokenOnce st \<Longrightarrow>
     hasSpokenOnce (step_tab ev st) \<and> calls (step_tab ev st) = calls st"
  by (simp add: step_tab_def render_tab_def handle_tab_gate_closed)

lemma run_tab_gate_closed:
  "list_all speechEvent evs \<Longrightarrow> hasSpokenOnce st \<Longrightarrow> calls (run_tab evs st) = calls st"
proof (induction evs arbitrary: st)
  case Nil
  then show ?case by simp
next
  case (Cons ev evs)
  from Cons.prems have ev: "speechEvent ev" and evs: "list_all speechEvent evs"
    by simp_all
  from step_tab_gate_closed [OF ev Cons.prems(2)]
  have "hasSpokenOnce (step_tab ev st)" and same: "calls (step_tab ev st) = calls st"
    by simp_all
  with Cons.IH [OF evs] show ?case by simp
qed

lemma handle_tab_speaks_once:
  "speechEvent ev \<Longrightarrow>
     deps_tab (handle_tab ev st) = deps_tab st
     \<and> (speakCount (handle_tab ev st) = speakCount st
        \<or> (hasSpokenOnce (handle_tab ev st)
            \<and> speakCount (handle_tab ev st) = Suc (speakCount st)))"
  by (cases ev) (simp_all add: handleSpeak_tab_def deps_tab_def speakCount_def)

lemma step_tab_speaks_once:
  "speechEvent ev \<Longrightarrow>
     speakCount (step_tab ev st) = speakCount st
     \<or> (hasSpokenOnce (step_tab ev st) \<and> speakCount (step_tab ev st) = Suc (speakCount st))"
  using handle_tab_speaks_once [of ev st] by (simp add: step_tab_def render_tab_def)

lemma run_tab_at_most_once:
  "list_all speechEvent evs \<Longrightarrow> speakCount (run_tab evs st) \<le> Suc (speakCount st)"
proof (induction evs arbitrary: st)
  case Nil
  then show ?case by simp
next
  case (Cons ev evs)
  from Cons.prems have ev: "speechEvent ev" and evs: "list_all speechEvent evs"
    by simp_all
  from step_tab_speaks_once [OF ev, of st] show ?case
  proof
    assume "speakCount (step_tab ev st) = speakCount st"
    with Cons.IH [OF evs, of "step_tab ev st"] show ?thesis by simp
  next
    assume spoken: "hasSpokenOnce (step_tab ev st)
      \<and> speakCount (step_tab ev st) = Suc (speakCount st)"
    with run_tab_gate_closed [OF evs, of "step_tab ev st"]
    show ?thesis by (simp add: speakCount_def)
  qed
qed

text \<open>
  What the gate does give. When no utterance is being spoken, the translation is not blank
  and it has not been spoken yet (it differs from \<open>lastSpokenTranslation\<close>, or
  \<open>hasSpokenOnce\<close> is false), two invocations of \<open>handleSpeak\<close> in succession make
  exactly one call \<open>speak(translatedText, targetLanguage)\<close>. From any state, any sequence
  of requests to speak and utterance events makes at most one call of \<open>speak\<close>.
\<close>

lemma speak_gate_once:
  "(\<not> isSpeaking st \<longrightarrow> trim (translatedText st) \<noteq> [] \<longrightarrow>
      translatedText st \<noteq> lastSpokenTranslation st \<longrightarrow>
      calls (handleSpeak (handleSpeak st))
        = calls st @ [Speak (translatedText st) (targetLanguage st)])
   \<and> (\<not> isSpeaking ts \<longrightarrow> trim (translatedText ts) \<noteq> [] \<longrightarrow> \<not> hasSpokenOnce ts \<longrightarrow>
      calls (handleSpeak_tab (handleSpeak_tab ts))
        = calls ts @ [Speak (translatedText ts) (targetLanguage ts)])
   \<and> (list_all speechEvent evs \<longrightarrow> speakCount (run evs st) \<le> Suc (speakCount st))
   \<and> (list_all speechEvent evs \<longrightarrow> speakCount (run_tab evs ts) \<le> Suc (speakCount ts))"
proof -
  have toggle: "\<not> isSpeaking st \<longrightarrow> trim (translatedText st) \<noteq> [] \<longrightarrow>
      translatedText st \<noteq> lastSpokenTranslation st \<longrightarrow>
      calls (handleSpeak (handleSpeak st))
        = calls st @ [Speak (translatedText st) (targetLanguage st)]"
    by (simp add: handleSpeak_def)
  have tab: "\<not> isSpeaking ts \<longrightarrow> trim (translatedText ts) \<noteq> [] \<longrightarrow> \<not> hasSpokenOnce ts \<longrightarrow>
      calls (handleSpeak_tab (handleSpeak_tab ts))
        = calls ts @ [Speak (translatedText ts) (targetLanguage ts)]"
    by (simp add: handleSpeak_tab_def)
  from toggle tab run_at_most_once [of evs st] run_tab_at_most_once [of evs ts]
  show ?thesis by blast
qed

lemma speak_gate_once_example:
  "calls (handleSpeak (handleSpeak (initial\<lparr>translatedText := js ''Hola''\<rparr>)))
     = [Speak (js ''Hola'') (js ''es'')]
   \<and> calls (handleSpeak_tab (handleSpeak_tab (initial_tab\<lparr>translatedText := js ''Hola''\<rparr>)))
     = [Speak (js ''Hola'') (js ''es'')]
   \<and> speakCount (run [ClickSpeak, UtteranceStart, UtteranceEnd, ClickSpeak]
        (initial\<lparr>translatedText := js ''Hola''\<rparr>)) \<le> 1
   \<and> speakCount (run_tab [ClickSpeak, UtteranceStart, UtteranceEnd, ClickSpeak]
        (initial_tab\<lparr>translatedText := js ''Hola''\<rparr>)) \<le> 1"
proof -
  have nonblank: "trim (js ''Hola'') \<noteq> []" and fresh: "js ''Hola'' \<noteq> []"
    by (simp_all add: js_eval)
  have evs: "list_all speechEvent [ClickSpeak, UtteranceStart, UtteranceEnd, ClickSpeak]"
    by simp
  from speak_gate_once [of "initial\<lparr>translatedText := js ''Hola''\<rparr>"
      "initial_tab\<lparr>translatedText := js ''Hola''\<rparr>"
      "[ClickSpeak, UtteranceStart, UtteranceEnd, ClickSpeak]"] nonblank fresh evs
  show ?thesis by (simp add: initial_def initial_tab_def speakCount_def)
qed

text \<open>
  C1 fails on pages/Index.tsx. The callback given to \<open>then\<close> checks that the translation
  is new and not yet spoken when it schedules the timer, but the callback of the timer calls
  \<open>speak\<close> without reading \<open>lastSpokenTranslation\<close> again, and \<open>handleSpeak\<close> does
  not clear the timer. The translation "Hola" of "Hi" arrives and the timer is set; a
  request to speak within the 400 ms speaks "Hola" and records it as spoken; the timer then
  fires and speaks "Hola" a second time, although the text has not changed and the record
  has not been reset. The revision with tabs has no timer, and there the same request
  speaks once.
\<close>

theorem timer_speaks_again:
  "translatedText
     (run [Transcript (js ''Hi''), TranslationFulfilled 0 (js ''Hola'')] initial) = js ''Hola''
   \<and> timers
     (run [Transcript (js ''Hi''), TranslationFulfilled 0 (js ''Hola''), ClickSpeak] initial)
     = [(1, js ''Hola'', js ''es'')]
   \<and> lastSpokenTranslation
     (run [Transcript (js ''Hi''), TranslationFulfilled 0 (js ''Hola''), ClickSpeak] initial)
     = js ''Hola''
   \<and> translatedText
     (run [Transcript (js ''Hi''), TranslationFulfilled 0 (js ''Hola''), ClickSpeak,
           TimerFired 1] initial) = js ''Hola''
   \<and> filter isSpeak (calls
     (run [Transcript (js ''Hi''), TranslationFulfilled 0 (js ''Hola''), ClickSpeak,
           TimerFired 1] initial))
     = [Speak (js ''Hola'') (js ''es''), Speak (js ''Hola'') (js ''es'')]
   \<and> filter isSpeak (calls
     (run_tab [Transcript (js ''Hi''), TranslationFulfilled 0 (js ''Hola''), ClickSpeak,
           TimerFired 1, ClickSpeak] initial_tab))
     = [Speak (js ''Hola'') (js ''es'')]"
  by (simp add: index_eval tab_eval hook_eval js_eval Let_def)

subsection \<open>The order of translation results\<close>

text \<open>
  A promise that is in flight is fulfilled by writing its result to \<open>translatedText\<close>,
  whatever \<open>originalText\<close> is by then; a transcript that is not blank and differs from
  the current one starts a new translation under the next number.
\<close>

lemma map_of_present:
  "k \<in> fst ` set kvs \<Longrightarrow> \<exists>v. map_of kvs k = Some v"
  by (cases "map_of kvs k") (simp_all add: map_of_eq_None_iff)

lemma keys_without: "fst ` set (without k kvs) = fst ` set kvs - {k}"
  by (auto simp add: without_def)

lemma translatedText_onTranslation:
  "translatedText (onTranslation req translation st) = translation"
  by (simp add: onTranslation_def Let_def split: option.split)

lemma pending_onTranslation:
  "pending (onTranslation req translation st) = pending st
   \<and> nextRequest (onTranslation req translation st) = nextRequest st
   \<and> deps (onTranslation req translation st) = deps st"
  by (simp add: onTranslation_def Let_def deps_def split: option.split)

lemma step_fulfilled:
  assumes "i \<in> fst ` set (pending st)"
  shows "translatedText (step (TranslationFulfilled i translation) st) = translation
    \<and> fst ` set (pending (step (TranslationFulfilled i translation) st))
        = fst ` set (pending st) - {i}"
proof -
  from map_of_present [OF assms] obtain req where req: "map_of (pending st) i = Some req" ..
  have same: "deps (st\<lparr>pending := without i (pending st)\<rparr>) = deps st"
    by (simp add: deps_def)
  from req same show ?thesis
    by (simp add: step_def render_def pending_onTranslation translatedText_onTranslation
        keys_without)
qed

lemma step_transcript:
  assumes "trim t \<noteq> []" and "t \<noteq> originalText st"
  shows "originalText (step (Transcript t) st) = t
    \<and> fst ` set (pending (step (Transcript t) st)) = insert (nextRequest st) (fst ` set (pending st))
    \<and> nextRequest (step (Transcript t) st) = Suc (nextRequest st)"
  using assms by (simp add: step_def render_def deps_def useEffect_def callTranslateText_def)

lemma step_tab_fulfilled:
  assumes "i \<in> fst ` set (pending st)"
  shows "translatedText (step_tab (TranslationFulfilled i translation) st) = translation
    \<and> fst ` set (pending (step_tab (TranslationFulfilled i translation) st))
        = fst ` set (pending st) - {i}"
proof -
  from map_of_present [OF assms] obtain req where req: "map_of (pending st) i = Some req" ..
  then show ?thesis
    by (simp add: step_tab_def render_tab_def deps_tab_def onTranslation_tab_def keys_without)
qed

lemma step_tab_transcript:
  assumes "trim t \<noteq> []" and "t \<noteq> originalText st"
  shows "originalText (step_tab (Transcript t) st) = t
    \<and> fst ` set (pending (step_tab (Transcript t) st))
        = insert (nextRequest st) (fst ` set (pending st))
    \<and> nextRequest (step_tab (Transcript t) st) = Suc (nextRequest st)"
  using assms
  by (simp add: step_tab_def render_tab_def deps_tab_def useEffect_tab_def callTranslateText_def)

lemma run_last_fulfilled:
  assumes a: "trim a \<noteq> []" and b: "trim b \<noteq> []" and ab: "a \<noteq> b"
    and st: "originalText st \<noteq> a"
  shows "translatedText (run [Transcript a, Transcript b,
            TranslationFulfilled (Suc (nextRequest st)) resultB,
            TranslationFulfilled (nextRequest st) resultA] st) = resultA"
    and "translatedText (run [Transcript a, Transcript b,
            TranslationFulfilled (nextRequest st) resultA,
            TranslationFulfilled (Suc (nextRequest st)) resultB] st) = resultB"
proof -
  let ?n = "nextRequest st"
  let ?s1 = "step (Transcript a) st"
  let ?s2 = "step (Transcript b) ?s1"
  from st have st': "a \<noteq> originalText st" by simp
  note s1 = step_transcript [OF a st']
  from s1 ab have "b \<noteq> originalText ?s1" by simp
  note s2 = step_transcript [OF b this]
  from s1 s2 have keys: "fst ` set (pending ?s2) = insert (Suc ?n) (insert ?n (fst ` set (pending st)))"
    by simp
  then have hasB: "Suc ?n \<in> fst ` set (pending ?s2)" and hasA: "?n \<in> fst ` set (pending ?s2)"
    by simp_all
  let ?sB = "step (TranslationFulfilled (Suc ?n) resultB) ?s2"
  from step_fulfilled [OF hasB, of resultB] hasA
  have "?n \<in> fst ` set (pending ?sB)" by simp
  from step_fulfilled [OF this, of resultA]
  show "translatedText (run [Transcript a, Transcript b,
            TranslationFulfilled (Suc (nextRequest st)) resultB,
            TranslationFulfilled (nextRequest st) resultA] st) = resultA"
    by simp
  let ?sA = "step (TranslationFulfilled ?n resultA) ?s2"
  from step_fulfilled [OF hasA, of resultA] hasB
  have "Suc ?n \<in> fst ` set (pending ?sA)" by simp
  from step_fulfilled [OF this, of resultB]
  show "translatedText (run [Transcript a, Transcript b,
            TranslationFulfilled (nextRequest st) resultA,
            TranslationFulfilled (Suc (nextRequest st)) resultB] st) = resultB"
    by simp
qed

lemma run_tab_last_fulfilled:
  assumes a: "trim a \<noteq> []" and b: "trim b \<noteq> []" and ab: "a \<noteq> b"
    and st: "originalText st \<noteq> a"
  shows "translatedText (run_tab [Transcript a, Transcript b,
            TranslationFulfilled (Suc (nextRequest st)) resultB,
            TranslationFulfilled (nextRequest st) resultA] st) = resultA"
    and "translatedText (run_tab [Transcript a, Transcript b,
            TranslationFulfilled (nextRequest st) resultA,
            TranslationFulfilled (Suc (nextRequest st)) resultB] st) = resultB"
proof -
  let ?n = "nextRequest st"
  let ?s1 = "step_tab (Transcript a) st"
  let ?s2 = "step_tab (Transcript b) ?s1"
  from st have st': "a \<noteq> originalText st" by simp
  note s1 = step_tab_transcript [OF a st']
  from s1 ab have "b \<noteq> originalText ?s1" by simp
  note s2 = step_tab_transcript [OF b this]
  from s1 s2 have keys: "fst ` set (pending ?s2) = insert (Suc ?n) (insert ?n (fst ` set (pending st)))"
    by simp
  then have hasB: "Suc ?n \<in> fst ` set (pending ?s2)" and hasA: "?n \<in> fst ` set (pending ?s2)"
    by simp_all
  let ?sB = "step_tab (TranslationFulfilled (Suc ?n) resultB) ?s2"
  from step_tab_fulfilled [OF hasB, of resultB] hasA
  have "?n \<in> fst ` set (pending ?sB)" by simp
  from step_tab_fulfilled [OF this, of resultA]
  show "translatedText (run_tab [Transcript a, Transcript b,
            TranslationFulfilled (Suc (nextRequest st)) resultB,
            TranslationFulfilled (nextRequest st) resultA] st) = resultA"
    by simp
  let ?sA = "step_tab (TranslationFulfilled ?n resultA) ?s2"
  from step_tab_fulfilled [OF hasA, of resultA] hasB
  have "Suc ?n \<in> fst ` set (pending ?sA)" by simp
  from step_tab_fulfilled [OF this, of resultB]
  show "translatedText (run_tab [Transcript a, Transcript b,
            TranslationFulfilled (nextRequest st) resultA,
            TranslationFulfilled (Suc (nextRequest st)) resultB] st) = resultB"
    by simp
qed

text \<open>
  C2, as the code has it: the translation fulfilled last is the one shown. When the text
  changes from A to B while A's translation is in flight, \<open>translatedText\<close> ends as B's
  result if A's promise is fulfilled first, and as A's result if A's promise is fulfilled
  after B's.
\<close>

theorem last_fulfilled_translation_wins:
  "trim a \<noteq> [] \<Longrightarrow> trim b \<noteq> [] \<Longrightarrow> a \<noteq> b \<Longrightarrow> originalText st \<noteq> a \<Longrightarrow>
   originalText ts \<noteq> a \<Longrightarrow>
     translatedText (run [Transcript a, Transcript b,
            TranslationFulfilled (nextRequest st) resultA,
            TranslationFulfilled (Suc (nextRequest st)) resultB] st) = resultB
   \<and> translatedText (run [Transcript a, Transcript b,
            TranslationFulfilled (Suc (nextRequest st)) resultB,
            TranslationFulfilled (nextRequest st) resultA] st) = resultA
   \<and> translatedText (run_tab [Transcript a, Transcript b,
            TranslationFulfilled (nextRequest ts) resultA,
            TranslationFulfilled (Suc (nextRequest ts)) resultB] ts) = resultB
   \<and> translatedText (run_tab [Transcript a, Transcript b,
            TranslationFulfilled (Suc (nextRequest ts)) resultB,
            TranslationFulfilled (nextRequest ts) resultA] ts) = resultA"
  by (simp only: run_last_fulfilled run_tab_last_fulfilled simp_thms)

theorem last_fulfilled_translation_wins_witness:
  "translatedText (run_tab [Transcript (js ''A''), Transcript (js ''B''),
      TranslationFulfilled 0 (js ''a''), TranslationFulfilled 1 (js ''b'')] initial_tab) = js ''b''
   \<and> translatedText (run_tab [Transcript (js ''A''), Transcript (js ''B''),
      TranslationFulfilled 1 (js ''b''), TranslationFulfilled 0 (js ''a'')] initial_tab) = js ''a''
   \<and> translatedText (run [Transcript (js ''A''), Transcript (js ''B''),
      TranslationFulfilled 0 (js ''a''), TranslationFulfilled 1 (js ''b'')] initial) = js ''b''"
proof -
  have a: "trim (js ''A'') \<noteq> []" and b: "trim (js ''B'') \<noteq> []" and ab: "js ''A'' \<noteq> js ''B''"
    by (simp_all add: js_eval)
  have st: "originalText initial \<noteq> js ''A''" and ts: "originalText initial_tab \<noteq> js ''A''"
    by (simp_all add: initial_def initial_tab_def js_def)
  have n: "nextRequest initial = 0" "nextRequest initial_tab = 0"
    by (simp_all add: initial_def initial_tab_def)
  from last_fulfilled_translation_wins [OF a b ab st ts, of "js ''a''" "js ''b''"] n
  show ?thesis by simp
qed

text \<open>
  C2 as stated fails: A's translation arriving after B's overwrites it, and the page shows
  A's result under the original text B.
\<close>

theorem stale_translation_counterexample:
  "translatedText (run [Transcript (js ''A''), Transcript (js ''B''),
      TranslationFulfilled 1 (js ''b''), TranslationFulfilled 0 (js ''a'')] initial) = js ''a''
   \<and> translatedText (run_tab [Transcript (js ''A''), Transcript (js ''B''),
      TranslationFulfilled 1 (js ''b''), TranslationFulfilled 0 (js ''a'')] initial_tab) = js ''a''
   \<and> originalText (run_tab [Transcript (js ''A''), Transcript (js ''B''),
      TranslationFulfilled 1 (js ''b''), TranslationFulfilled 0 (js ''a'')] initial_tab) = js ''B''
   \<and> js ''a'' \<noteq> js ''b''"
  by (simp add: index_eval tab_eval hook_eval js_eval Let_def)

end
